theory Spec2Isabelle
  imports Main "HOL-Library.Word"
begin

unbundle bit_operations_syntax

section \<open>The emulated 16-bit CPU of cpu16.cpp\<close>

text \<open>
  A shallow embedding of \<^verbatim>\<open>src/cpu16.cpp\<close>. Every value of the program is a
  \<^verbatim>\<open>uint16_t\<close>, modelled as a 16-bit word: \<open>+\<close> wraps modulo 65536 and \<open><\<close> is the
  unsigned order.
\<close>

type_synonym word16 = "16 word"

subsection \<open>Flag bits (lines 50-61)\<close>

text \<open>
  \<^verbatim>\<open>uint16_t mask = 1 << bitpos; return (num & mask);\<close>
  The callers pass a nibble (0..15) as \<open>bitpos\<close>, so the shift stays inside the word.
\<close>

definition getbit :: "word16 \<Rightarrow> nat \<Rightarrow> word16" where
  "getbit num bitpos = num AND push_bit bitpos 1"

text \<open>
  \<^verbatim>\<open>if(set) num |= mask; else num &= ~mask;\<close> The reference parameter is returned.
\<close>

definition setbit :: "word16 \<Rightarrow> nat \<Rightarrow> bool \<Rightarrow> word16" where
  "setbit num bitpos st =
     (if st then num OR push_bit bitpos 1 else num AND NOT (push_bit bitpos 1))"

subsection \<open>The four nibbles of the first instruction word (lines 75-89)\<close>

definition getNibble1 :: "word16 \<Rightarrow> word16" where
  "getNibble1 num = drop_bit 12 num"

definition getNibble2 :: "word16 \<Rightarrow> word16" where
  "getNibble2 num = drop_bit 8 num AND 0x000F"

definition getNibble3 :: "word16 \<Rightarrow> word16" where
  "getNibble3 num = drop_bit 4 num AND 0x000F"

definition getNibble4 :: "word16 \<Rightarrow> word16" where
  "getNibble4 num = num AND 0x000F"

subsection \<open>Memory banks, registers and the machine state (lines 104-128, 197)\<close>

text \<open>
  A C++ array of declared size \<open>N\<close> is modelled as a function from the index to the cell
  together with the size \<open>N\<close>; every indexed access of the program is guarded by
  \<open>index < N\<close> in the model. C++ gives an access outside the array no meaning: the model
  ends the execution there with a \<open>fault\<close> and no state.

  \<^verbatim>\<open>uint16_t ROM[0xFFFF]; uint16_t RAM[0xFFFF]; uint16_t reg[5] = {0};\<close>
\<close>

type_synonym bank = "nat \<Rightarrow> word16"

definition ROM_SIZE :: nat where
  "ROM_SIZE = 0xFFFF"

definition RAM_SIZE :: nat where
  "RAM_SIZE = 0xFFFF"

definition NREG :: nat where
  "NREG = 5"

datatype fault = RegOutOfRange | RomOutOfRange

text \<open>
  The globals the program mutates: the register file, the data store, the halt flag, and
  the characters written to \<^verbatim>\<open>std::cout\<close> so far.
\<close>

record machine =
  reg :: "nat \<Rightarrow> word16"
  RAM :: bank
  halt :: bool
  out :: string

text \<open>The state of the globals when \<^verbatim>\<open>main\<close> starts: statics are zero, \<open>halt\<close> is false.\<close>

definition reg0 :: "nat \<Rightarrow> word16" where
  "reg0 = (\<lambda>_. 0)"

definition RAM0 :: bank where
  "RAM0 = (\<lambda>_. 0)"

definition reset :: machine where
  "reset = \<lparr>reg = reg0, RAM = RAM0, halt = False, out = []\<rparr>"

subsection \<open>Printing a register (line 236)\<close>

text \<open>
  \<^verbatim>\<open>std::cout << reg[n2] << std::endl;\<close> writes the value as an unsigned decimal
  numeral followed by a newline.
\<close>

definition digit :: "nat \<Rightarrow> char" where
  "digit d = ''0123456789'' ! d"

fun decimal :: "nat \<Rightarrow> string" where
  "decimal n = (if n < 10 then [digit n] else decimal (n div 10) @ [digit (n mod 10)])"

declare decimal.simps [simp del]

definition endl :: char where
  "endl = CHR 0x0A"

definition print_line :: "word16 \<Rightarrow> string" where
  "print_line v = decimal (unat v) @ [endl]"

subsection \<open>Executing one instruction (lines 199-262)\<close>

text \<open>\<^verbatim>\<open>reg[0] += 2;\<close> (line 207), before the \<^verbatim>\<open>switch\<close>.\<close>

definition pc_advance :: "machine \<Rightarrow> machine" where
  "pc_advance s = s\<lparr>reg := (reg s)(0 := reg s 0 + 2)\<rparr>"

text \<open>\<^verbatim>\<open>setbit(reg[1], bitpos, set)\<close>: the flags register is passed by reference.\<close>

definition flag_set :: "machine \<Rightarrow> nat \<Rightarrow> bool \<Rightarrow> machine" where
  "flag_set s bitpos st = s\<lparr>reg := (reg s)(1 := setbit (reg s 1) bitpos st)\<rparr>"

text \<open>\<^verbatim>\<open>reg[i] = v\<close> for an index already known to be inside the array.\<close>

definition reg_set :: "machine \<Rightarrow> nat \<Rightarrow> word16 \<Rightarrow> machine" where
  "reg_set s i v = s\<lparr>reg := (reg s)(i := v)\<rparr>"

definition in_reg :: "nat \<Rightarrow> bool" where
  "in_reg i = (i < NREG)"

text \<open>
  The \<^verbatim>\<open>switch\<close> has cases 0x0, 0x5, 0x6, 0x7, 0xA and 0xE; every other opcode takes
  \<^verbatim>\<open>default\<close>. The nibbles \<open>n2\<close>, \<open>n3\<close>, \<open>n4\<close> index \<^verbatim>\<open>reg\<close> without any check in
  the source.
\<close>

definition runInstruction :: "word16 \<Rightarrow> word16 \<Rightarrow> machine \<Rightarrow> fault + machine" where
  "runInstruction instruction address s0 =
     (let n1 = getNibble1 instruction;
          n2 = unat (getNibble2 instruction);
          n3 = unat (getNibble3 instruction);
          n4 = unat (getNibble4 instruction);
          s = pc_advance s0
      in
        if n1 = 0x0 then
          (if in_reg n2 \<and> in_reg n3 \<and> in_reg n4
           then Inr (reg_set s n4 (reg s n2 + reg s n3))
           else Inl RegOutOfRange)
        else if n1 = 0x5 then
          (let s1 = flag_set (flag_set (flag_set s 0 False) 1 False) 2 False
           in if in_reg n2 \<and> in_reg n3
              then Inr (if reg s1 n3 < reg s1 n2 then flag_set s1 0 True
                        else if reg s1 n2 = reg s1 n3 then flag_set s1 1 True
                        else if reg s1 n2 < reg s1 n3 then flag_set s1 2 True
                        else s1)
              else Inl RegOutOfRange)
        else if n1 = 0x6 then
          (if in_reg n2 \<and> in_reg n3
           then Inr (reg_set s n3 (reg s n2))
           else Inl RegOutOfRange)
        else if n1 = 0x7 then
          (if in_reg n2
           then Inr (s\<lparr>out := out s @ print_line (reg s n2)\<rparr>)
           else Inl RegOutOfRange)
        else if n1 = 0xA then
          (if in_reg n2
           then Inr (reg_set s n2 address)
           else Inl RegOutOfRange)
        else if n1 = 0xE then
          Inr (if n2 = 0 then
                 (if getbit (reg s 1) n3 = 0 then reg_set s 0 address else s)
               else if n2 = 1 then
                 (if getbit (reg s 1) n3 \<noteq> 0 then reg_set s 0 address else s)
               else reg_set s 0 address)
        else Inr (s\<lparr>halt := True\<rparr>))"

text \<open>
  The state in which CMP reads its operands: after line 207 and the three clears of
  lines 218-220.
\<close>

definition cleared :: "machine \<Rightarrow> machine" where
  "cleared s = flag_set (flag_set (flag_set (pc_advance s) 0 False) 1 False) 2 False"

subsection \<open>The run loop of main (lines 311-316)\<close>

text \<open>
  \<^verbatim>\<open>runInstruction( ROM[reg[0]], ROM[reg[0]+1] );\<close> The index \<^verbatim>\<open>reg[0]+1\<close> is computed
  in \<^verbatim>\<open>int\<close>, so it does not wrap: it is 65536 when the program counter is 65535.
\<close>

definition cycle :: "bank \<Rightarrow> machine \<Rightarrow> fault + machine" where
  "cycle ROM s =
     (let pc = unat (reg s 0)
      in if pc < ROM_SIZE \<and> pc + 1 < ROM_SIZE
         then runInstruction (ROM pc) (ROM (pc + 1)) s
         else Inl RomOutOfRange)"

text \<open>
  \<^verbatim>\<open>while(!halt) { runInstruction(...); usleep(...); }\<close> The loop may run forever, so
  the model takes the largest number of cycles it may run: \<open>None\<close> says that the machine
  has not halted within that many cycles. The pause between cycles has no effect on the
  state and is left out.
\<close>

fun run_loop :: "nat \<Rightarrow> bank \<Rightarrow> machine \<Rightarrow> (fault + machine) option" where
  "run_loop 0 ROM s = (if halt s then Some (Inr s) else None)"
| "run_loop (Suc n) ROM s =
     (if halt s then Some (Inr s)
      else case cycle ROM s of
             Inl f \<Rightarrow> Some (Inl f)
           | Inr s' \<Rightarrow> run_loop n ROM s')"

subsection \<open>The program store that main sets up (lines 270-307)\<close>

text \<open>
  \<^verbatim>\<open>for (int i=0; i < 0xFFFF; i++) ROM[i] = 0xFFFF;\<close> fills every cell of the array;
  the model's function has that value at the indices outside the array too, where it is
  never read.
\<close>

definition ROM_fill :: bank where
  "ROM_fill = (\<lambda>_. 0xFFFF)"

definition main_ROM :: bank where
  "main_ROM = ROM_fill
     (0 := 0xA200, 1 := 0x0000,
      2 := 0xA300, 3 := 0x0001,
      4 := 0x0234, 5 := 0x0000,
      6 := 0x7400, 7 := 0x0000,
      8 := 0x6320, 9 := 0x0000,
      10 := 0x6430, 11 := 0x0000,
      12 := 0x0234, 13 := 0x0000,
      14 := 0x5430, 15 := 0x0000,
      16 := 0xE100, 17 := 0x0006)"

definition main :: "nat \<Rightarrow> (fault + machine) option" where
  "main fuel = run_loop fuel main_ROM reset"

subsection \<open>The sequence the demo program is meant to print\<close>

text \<open>
  The first \<open>n\<close> terms of the sequence that starts with \<open>a\<close>, \<open>b\<close> and continues
  with the sum of the last two terms: with \<open>a = 1\<close>, \<open>b = 2\<close> the Fibonacci numbers
  from the third one on. This definition follows the words of the claim about the demo
  program, not the source: it is what the output of the program is compared with.
\<close>

fun spec_fibonacci :: "nat \<Rightarrow> nat \<Rightarrow> nat \<Rightarrow> nat list" where
  "spec_fibonacci 0 a b = []"
| "spec_fibonacci (Suc n) a b = a # spec_fibonacci n b (a + b)"

section \<open>Properties\<close>

subsection \<open>Bits and the decoded opcodes\<close>

lemma bit_setbit:
  "bit (setbit w k b) j \<longleftrightarrow> (if j = k \<and> k < 16 then b else bit w j)"
  by (auto simp: setbit_def bit_simps dest: bit_imp_le_length)

lemma getbit_zero_iff: "getbit w k = 0 \<longleftrightarrow> \<not> bit w k"
  by (simp add: getbit_def and_exp_eq_0_iff_not_bit)

lemma runInstruction_default:
  assumes "getNibble1 instruction \<notin> {0x0, 0x5, 0x6, 0x7, 0xA, 0xE}"
  shows "runInstruction instruction address s = Inr ((pc_advance s)\<lparr>halt := True\<rparr>)"
  using assms by (simp add: runInstruction_def Let_def)

lemma runInstruction_ADD:
  assumes "getNibble1 instruction = 0x0"
  shows "runInstruction instruction address s =
     (if unat (getNibble2 instruction) < NREG \<and> unat (getNibble3 instruction) < NREG \<and> unat (getNibble4 instruction) < NREG
      then Inr (reg_set (pc_advance s) (unat (getNibble4 instruction))
              (reg (pc_advance s) (unat (getNibble2 instruction)) + reg (pc_advance s) (unat (getNibble3 instruction))))
      else Inl RegOutOfRange)"
  using assms by (simp add: runInstruction_def Let_def in_reg_def)

lemma runInstruction_CPY:
  assumes "getNibble1 instruction = 0x6"
  shows "runInstruction instruction address s =
     (if unat (getNibble2 instruction) < NREG \<and> unat (getNibble3 instruction) < NREG
      then Inr (reg_set (pc_advance s) (unat (getNibble3 instruction))
              (reg (pc_advance s) (unat (getNibble2 instruction))))
      else Inl RegOutOfRange)"
  using assms by (simp add: runInstruction_def Let_def in_reg_def)

lemma runInstruction_OUT:
  assumes "getNibble1 instruction = 0x7"
  shows "runInstruction instruction address s =
     (if unat (getNibble2 instruction) < NREG
      then Inr ((pc_advance s)\<lparr>out := out s @ print_line (reg (pc_advance s) (unat (getNibble2 instruction)))\<rparr>)
      else Inl RegOutOfRange)"
  using assms by (simp add: runInstruction_def Let_def in_reg_def pc_advance_def)

lemma runInstruction_LDV:
  assumes "getNibble1 instruction = 0xA"
  shows "runInstruction instruction address s =
     (if unat (getNibble2 instruction) < NREG
      then Inr (reg_set (pc_advance s) (unat (getNibble2 instruction)) address)
      else Inl RegOutOfRange)"
  using assms by (simp add: runInstruction_def Let_def in_reg_def)

lemma runInstruction_J:
  assumes "getNibble1 instruction = 0xE"
  shows "runInstruction instruction address s =
     Inr (if (unat (getNibble2 instruction) = 0 \<and> \<not> bit (reg s 1) (unat (getNibble3 instruction)))
           \<or> (unat (getNibble2 instruction) = 1 \<and> bit (reg s 1) (unat (getNibble3 instruction)))
           \<or> 2 \<le> unat (getNibble2 instruction)
          then reg_set (pc_advance s) 0 address else pc_advance s)"
  using assms by (auto simp: runInstruction_def Let_def getbit_zero_iff pc_advance_def)

lemma runInstruction_CMP:
  assumes "getNibble1 instruction = 0x5"
  shows "runInstruction instruction address s =
     (if unat (getNibble2 instruction) < NREG \<and> unat (getNibble3 instruction) < NREG
      then Inr (flag_set (cleared s)
                 (if reg (cleared s) (unat (getNibble3 instruction)) < reg (cleared s) (unat (getNibble2 instruction)) then 0
                  else if reg (cleared s) (unat (getNibble2 instruction)) = reg (cleared s) (unat (getNibble3 instruction)) then 1
                  else 2) True)
      else Inl RegOutOfRange)"
  using assms by (auto simp: runInstruction_def Let_def in_reg_def cleared_def)

lemma reg_cleared: "r \<noteq> 1 \<Longrightarrow> reg (cleared s) r = reg (pc_advance s) r"
  by (simp add: cleared_def flag_set_def)

lemma bit_flags_after_CMP:
  assumes "k < 3"
  shows "bit (reg (flag_set (cleared s) k True) 1) j \<longleftrightarrow> (if j < 3 then j = k else bit (reg s 1) j)"
  using assms by (auto simp: cleared_def flag_set_def pc_advance_def bit_setbit)

lemma frame_flag_set_cleared:
  "r \<noteq> 1 \<Longrightarrow> reg (flag_set (cleared s) k True) r = reg (pc_advance s) r"
  "RAM (flag_set (cleared s) k True) = RAM s"
  "halt (flag_set (cleared s) k True) = halt s"
  "out (flag_set (cleared s) k True) = out s"
  by (simp_all add: cleared_def flag_set_def pc_advance_def)


subsection \<open>Arithmetic\<close>

text \<open>
  C9. ADD (opcode 0x0) with selectors f2 = A, f3 = B, f4 = C, all inside the register
  file: for the values \<open>a\<close> and \<open>b\<close> that registers A and B hold when the opcode is
  dispatched (after the increment of line 207, which is visible only when the selector is
  0), the instruction completes without a fault and leaves \<open>(a + b) mod 65536\<close> in
  register C. No other register, the data store, the halt flag or the output changes.
\<close>

theorem ADD_stores_sum_mod_65536:
  assumes "getNibble1 instruction = 0x0"
    and "A = unat (getNibble2 instruction)" and "B = unat (getNibble3 instruction)"
    and "C = unat (getNibble4 instruction)"
    and "A < NREG" and "B < NREG" and "C < NREG"
    and "a = reg (pc_advance s) A" and "b = reg (pc_advance s) B"
  shows "\<exists>s'. runInstruction instruction address s = Inr s' \<and>
           unat (reg s' C) = (unat a + unat b) mod 65536 \<and>
           (\<forall>r. r \<noteq> C \<longrightarrow> reg s' r = reg (pc_advance s) r) \<and>
           RAM s' = RAM s \<and> halt s' = halt s \<and> out s' = out s \<and>
           (A \<noteq> 0 \<longrightarrow> a = reg s A) \<and> (B \<noteq> 0 \<longrightarrow> b = reg s B)"
proof -
  let ?s' = "reg_set (pc_advance s) C (a + b)"
  have run: "runInstruction instruction address s = Inr ?s'"
    using assms by (simp add: runInstruction_ADD)
  have val: "unat (reg ?s' C) = (unat a + unat b) mod 65536"
    by (simp add: reg_set_def unat_word_ariths)
  have frame: "\<forall>r. r \<noteq> C \<longrightarrow> reg ?s' r = reg (pc_advance s) r"
    by (simp add: reg_set_def)
  have rest: "RAM ?s' = RAM s \<and> halt ?s' = halt s \<and> out ?s' = out s"
    by (simp add: reg_set_def pc_advance_def)
  have pre: "(A \<noteq> 0 \<longrightarrow> a = reg s A) \<and> (B \<noteq> 0 \<longrightarrow> b = reg s B)"
    using assms(8,9) by (simp add: pc_advance_def)
  from run val frame rest pre show ?thesis by blast
qed


theorem ADD_stores_sum_mod_65536_witness:
  "getNibble1 0x0234 = 0x0 \<and> unat (getNibble2 0x0234) = 2 \<and> unat (getNibble3 0x0234) = 3 \<and> unat (getNibble4 0x0234) = 4 \<and>
   (2::nat) < NREG \<and> (3::nat) < NREG \<and> (4::nat) < NREG \<and>
   reg (pc_advance (reset\<lparr>reg := reg0(2 := 0xFFFF, 3 := 2)\<rparr>)) 2 = 0xFFFF \<and>
   reg (pc_advance (reset\<lparr>reg := reg0(2 := 0xFFFF, 3 := 2)\<rparr>)) 3 = 2 \<and>
   (\<exists>s'. runInstruction 0x0234 0 (reset\<lparr>reg := reg0(2 := 0xFFFF, 3 := 2)\<rparr>) = Inr s' \<and> unat (reg s' 4) = 1)"
proof -
  have h: "getNibble1 0x0234 = 0x0" "unat (getNibble2 0x0234) = 2" "unat (getNibble3 0x0234) = 3"
      "unat (getNibble4 0x0234) = 4" "(2::nat) < NREG" "(3::nat) < NREG" "(4::nat) < NREG"
    by (simp_all add: getNibble1_def getNibble2_def getNibble3_def getNibble4_def NREG_def)
  have v: "reg (pc_advance (reset\<lparr>reg := reg0(2 := 0xFFFF, 3 := 2)\<rparr>)) 2 = 0xFFFF"
     "reg (pc_advance (reset\<lparr>reg := reg0(2 := 0xFFFF, 3 := 2)\<rparr>)) 3 = 2"
    by (simp_all add: pc_advance_def)
  from ADD_stores_sum_mod_65536 [OF h(1) h(2)[symmetric] h(3)[symmetric] h(4)[symmetric] h(5-7) v(1)[symmetric] v(2)[symmetric], of 0]
  have "\<exists>s'. runInstruction 0x0234 0 (reset\<lparr>reg := reg0(2 := 0xFFFF, 3 := 2)\<rparr>) = Inr s' \<and> unat (reg s' 4) = (unat (0xFFFF :: word16) + unat (2 :: word16)) mod 65536"
    by blast
  then have "\<exists>s'. runInstruction 0x0234 0 (reset\<lparr>reg := reg0(2 := 0xFFFF, 3 := 2)\<rparr>) = Inr s' \<and> unat (reg s' 4) = 1"
    by simp
  with h v show ?thesis by blast
qed


text \<open>
  C1 (as amended). Opcode 0x1 has no case in the \<^verbatim>\<open>switch\<close>: the instruction takes
  \<^verbatim>\<open>default\<close>, which sets \<open>halt\<close>; besides the increment of the program counter no
  register is written, so no difference is stored.
\<close>

theorem SUB_not_implemented:
  assumes "getNibble1 instruction = 0x1"
  shows "runInstruction instruction address s = Inr ((pc_advance s)\<lparr>halt := True\<rparr>)"
  using assms by (simp add: runInstruction_default)


theorem SUB_not_implemented_witness:
  "getNibble1 0x1234 = 0x1 \<and>
   runInstruction 0x1234 0 reset = Inr ((pc_advance reset)\<lparr>halt := True\<rparr>)"
proof -
  have h: "getNibble1 0x1234 = 0x1" by (simp add: getNibble1_def)
  from SUB_not_implemented [OF h, of 0 reset] h show ?thesis by simp
qed

text \<open>
  C1 as stated fails: with 7 in register 2 and 5 in register 3, the word 0x1234
  (opcode 1, selectors 2, 3, 4) leaves register 4 at 0, not at 2, and halts the machine.
\<close>

theorem SUB_counterexample:
  "runInstruction 0x1234 0 (reset\<lparr>reg := reg0(2 := 7, 3 := 5)\<rparr>)
     = Inr (reset\<lparr>reg := reg0(2 := 7, 3 := 5, 0 := 2), halt := True\<rparr>) \<and>
   reg (reset\<lparr>reg := reg0(2 := 7, 3 := 5, 0 := 2), halt := True\<rparr>) 4 \<noteq> 7 - 5 \<and>
   halt (reset\<lparr>reg := reg0(2 := 7, 3 := 5, 0 := 2), halt := True\<rparr>)"
  by (simp add: runInstruction_def Let_def getNibble1_def pc_advance_def reset_def reg0_def)


subsection \<open>Comparison\<close>

lemma reg_cleared_flags: "reg (cleared s) 1 = reg s 1 AND 0xFFF8"
proof -
  have "bit (reg (cleared s) 1) j \<longleftrightarrow> bit (reg s 1 AND 0xFFF8) j" for j
  proof -
    have m: "(0xFFF8 :: word16) = NOT (mask 3)" by (simp add: mask_eq_exp_minus_1)
    have "bit (reg (cleared s) 1) j \<longleftrightarrow> \<not> j < 3 \<and> bit (reg s 1) j"
      by (auto simp: cleared_def flag_set_def pc_advance_def bit_setbit)
    also have "\<dots> \<longleftrightarrow> bit (reg s 1 AND NOT (mask 3)) j"
      by (auto simp: bit_simps dest: bit_imp_le_length)
    finally show ?thesis by (simp only: m)
  qed
  then show ?thesis by (simp add: bit_eq_iff)
qed

lemma reg_cleared_value:
  "reg (cleared s) r = (if r = 1 then reg s 1 AND 0xFFF8 else if r = 0 then reg s 0 + 2 else reg s r)"
proof (cases "r = 1")
  case True
  with reg_cleared_flags [of s] show ?thesis by simp
next
  case False
  then show ?thesis by (simp add: reg_cleared pc_advance_def)
qed

text \<open>
  C3 (as amended). CMP (opcode 0x5) with selectors f2 = A, f3 = B inside the register
  file completes without a fault; afterwards exactly one of the flag bits 0, 1, 2 of
  register 1 is set and the other two are clear, bits 3 and above of register 1 are as
  before the instruction, and no other register (besides the program counter's
  increment), the data store, the halt flag or the output changes. The set bit is the one
  of the unsigned comparison of the values \<open>a\<close>, \<open>b\<close> that CMP reads from A and B:
  bit 0 for \<open>a > b\<close>, bit 1 for \<open>a = b\<close>, bit 2 for \<open>a < b\<close>. CMP reads them after
  the increment of line 207 and after the three clears of lines 218-220: for a selector
  2, 3 or 4 the value read is the one the register held before the instruction, for
  selector 0 it is that value plus 2, and for selector 1 it is the flags register with
  its bits 0-2 cleared.
\<close>

theorem CMP_sets_one_flag:
  assumes "getNibble1 instruction = 0x5"
    and "A = unat (getNibble2 instruction)" and "B = unat (getNibble3 instruction)"
    and "A < NREG" and "B < NREG"
    and "a = reg (cleared s) A" and "b = reg (cleared s) B"
  shows "\<exists>s'. runInstruction instruction address s = Inr s' \<and>
           (bit (reg s' 1) 0 \<longleftrightarrow> b < a) \<and> (bit (reg s' 1) 1 \<longleftrightarrow> a = b) \<and>
           (bit (reg s' 1) 2 \<longleftrightarrow> a < b) \<and>
           ((bit (reg s' 1) 0 \<and> \<not> bit (reg s' 1) 1 \<and> \<not> bit (reg s' 1) 2) \<or>
            (\<not> bit (reg s' 1) 0 \<and> bit (reg s' 1) 1 \<and> \<not> bit (reg s' 1) 2) \<or>
            (\<not> bit (reg s' 1) 0 \<and> \<not> bit (reg s' 1) 1 \<and> bit (reg s' 1) 2)) \<and>
           (\<forall>j. 3 \<le> j \<longrightarrow> bit (reg s' 1) j = bit (reg s 1) j) \<and>
           (\<forall>r. r \<noteq> 1 \<longrightarrow> reg s' r = reg (pc_advance s) r) \<and>
           RAM s' = RAM s \<and> halt s' = halt s \<and> out s' = out s \<and>
           a = (if A = 1 then reg s 1 AND 0xFFF8 else if A = 0 then reg s 0 + 2 else reg s A) \<and>
           b = (if B = 1 then reg s 1 AND 0xFFF8 else if B = 0 then reg s 0 + 2 else reg s B)"
proof -
  define k :: nat where "k = (if b < a then 0 else if a = b then 1 else 2)"
  let ?s' = "flag_set (cleared s) k True"
  have k3: "k < 3" by (simp add: k_def)
  have run: "runInstruction instruction address s = Inr ?s'"
    using assms by (simp add: runInstruction_CMP k_def)
  have bits: "\<And>j. bit (reg ?s' 1) j \<longleftrightarrow> (if j < 3 then j = k else bit (reg s 1) j)"
    using k3 by (rule bit_flags_after_CMP)
  have cmp: "(bit (reg ?s' 1) 0 \<longleftrightarrow> b < a) \<and> (bit (reg ?s' 1) 1 \<longleftrightarrow> a = b) \<and>
      (bit (reg ?s' 1) 2 \<longleftrightarrow> a < b)"
    unfolding bits by (auto simp: k_def)
  have one: "(bit (reg ?s' 1) 0 \<and> \<not> bit (reg ?s' 1) 1 \<and> \<not> bit (reg ?s' 1) 2) \<or>
            (\<not> bit (reg ?s' 1) 0 \<and> bit (reg ?s' 1) 1 \<and> \<not> bit (reg ?s' 1) 2) \<or>
            (\<not> bit (reg ?s' 1) 0 \<and> \<not> bit (reg ?s' 1) 1 \<and> bit (reg ?s' 1) 2)"
    unfolding bits using k3 by auto
  have high: "\<forall>j. 3 \<le> j \<longrightarrow> bit (reg ?s' 1) j = bit (reg s 1) j"
    unfolding bits by simp
  have frame: "(\<forall>r. r \<noteq> 1 \<longrightarrow> reg ?s' r = reg (pc_advance s) r) \<and>
           RAM ?s' = RAM s \<and> halt ?s' = halt s \<and> out ?s' = out s"
    by (simp add: frame_flag_set_cleared)
  have vals: "a = (if A = 1 then reg s 1 AND 0xFFF8 else if A = 0 then reg s 0 + 2 else reg s A) \<and>
           b = (if B = 1 then reg s 1 AND 0xFFF8 else if B = 0 then reg s 0 + 2 else reg s B)"
    unfolding assms(6,7) by (simp only: reg_cleared_value)
  from run cmp one high frame vals show ?thesis by blast
qed

theorem CMP_sets_one_flag_witness:
  "getNibble1 0x5430 = 0x5 \<and> unat (getNibble2 0x5430) = 4 \<and> unat (getNibble3 0x5430) = 3 \<and>
   (4::nat) < NREG \<and> (3::nat) < NREG \<and>
   reg (cleared (reset\<lparr>reg := reg0(3 := 46368, 4 := 9489)\<rparr>)) 4 = 9489 \<and>
   reg (cleared (reset\<lparr>reg := reg0(3 := 46368, 4 := 9489)\<rparr>)) 3 = 46368 \<and>
   (\<exists>s'. runInstruction 0x5430 0 (reset\<lparr>reg := reg0(3 := 46368, 4 := 9489)\<rparr>) = Inr s' \<and>
         \<not> bit (reg s' 1) 0 \<and> \<not> bit (reg s' 1) 1 \<and> bit (reg s' 1) 2) \<and>
   getNibble1 0x5120 = 0x5 \<and> unat (getNibble2 0x5120) = 1 \<and> unat (getNibble3 0x5120) = 2 \<and>
   (1::nat) < NREG \<and> (2::nat) < NREG \<and>
   reg (cleared (reset\<lparr>reg := reg0(1 := 9, 2 := 3)\<rparr>)) 1 = 8 \<and>
   reg (cleared (reset\<lparr>reg := reg0(1 := 9, 2 := 3)\<rparr>)) 2 = 3 \<and>
   (\<exists>s'. runInstruction 0x5120 0 (reset\<lparr>reg := reg0(1 := 9, 2 := 3)\<rparr>) = Inr s' \<and>
         bit (reg s' 1) 0 \<and> \<not> bit (reg s' 1) 1 \<and> \<not> bit (reg s' 1) 2 \<and> bit (reg s' 1) 3)"
proof -
  have h: "getNibble1 0x5430 = 0x5" "unat (getNibble2 0x5430) = 4" "unat (getNibble3 0x5430) = 3"
      "(4::nat) < NREG" "(3::nat) < NREG"
    by (simp_all add: getNibble1_def getNibble2_def getNibble3_def NREG_def)
  have g: "getNibble1 0x5120 = 0x5" "unat (getNibble2 0x5120) = 1" "unat (getNibble3 0x5120) = 2"
      "(1::nat) < NREG" "(2::nat) < NREG"
    by (simp_all add: getNibble1_def getNibble2_def getNibble3_def NREG_def)
  have v: "reg (cleared (reset\<lparr>reg := reg0(3 := 46368, 4 := 9489)\<rparr>)) 4 = 9489"
      "reg (cleared (reset\<lparr>reg := reg0(3 := 46368, 4 := 9489)\<rparr>)) 3 = 46368"
    by (simp_all add: reg_cleared_value)
  have w: "reg (cleared (reset\<lparr>reg := reg0(1 := 9, 2 := 3)\<rparr>)) 1 = 8"
      "reg (cleared (reset\<lparr>reg := reg0(1 := 9, 2 := 3)\<rparr>)) 2 = 3"
    by (simp_all add: reg_cleared_value)
  from CMP_sets_one_flag [OF h(1) h(2)[symmetric] h(3)[symmetric] h(4,5) v(1)[symmetric] v(2)[symmetric], of 0]
  have p: "\<exists>s'. runInstruction 0x5430 0 (reset\<lparr>reg := reg0(3 := 46368, 4 := 9489)\<rparr>) = Inr s' \<and>
         \<not> bit (reg s' 1) 0 \<and> \<not> bit (reg s' 1) 1 \<and> bit (reg s' 1) 2"
    by simp blast
  have b3: "bit (reg (reset\<lparr>reg := reg0(1 := 9, 2 := 3)\<rparr>) 1) 3"
    by simp
  from CMP_sets_one_flag [OF g(1) g(2)[symmetric] g(3)[symmetric] g(4,5) w(1)[symmetric] w(2)[symmetric], of 0]
  obtain s' where s': "runInstruction 0x5120 0 (reset\<lparr>reg := reg0(1 := 9, 2 := 3)\<rparr>) = Inr s'"
      "bit (reg s' 1) 0 \<longleftrightarrow> (3::word16) < 8" "bit (reg s' 1) 1 \<longleftrightarrow> (8::word16) = 3"
      "bit (reg s' 1) 2 \<longleftrightarrow> (8::word16) < 3"
      "\<forall>j. 3 \<le> j \<longrightarrow> bit (reg s' 1) j = bit (reg (reset\<lparr>reg := reg0(1 := 9, 2 := 3)\<rparr>) 1) j"
    by blast
  from s'(5) b3 have "bit (reg s' 1) 3" by simp
  with s'(1-4) have q: "\<exists>s'. runInstruction 0x5120 0 (reset\<lparr>reg := reg0(1 := 9, 2 := 3)\<rparr>) = Inr s' \<and>
         bit (reg s' 1) 0 \<and> \<not> bit (reg s' 1) 1 \<and> \<not> bit (reg s' 1) 2 \<and> bit (reg s' 1) 3"
    by simp
  from h v p g w q show ?thesis by blast
qed

text \<open>
  C3 as stated fails when a selector names the flags register: with 1 in register 1 and
  0 in register 2, CMP 1 2 (0x5120) reads register 1 after its bits 0-2 have been
  cleared, finds 0 = 0 and sets bit 1, although 1 > 0.
\<close>

theorem CMP_counterexample:
  "runInstruction 0x5120 0 (reset\<lparr>reg := reg0(1 := 1)\<rparr>) = Inr (reset\<lparr>reg := reg0(1 := 2, 0 := 2)\<rparr>) \<and>
   reg (reset\<lparr>reg := reg0(1 := 1)\<rparr>) 2 < reg (reset\<lparr>reg := reg0(1 := 1)\<rparr>) 1 \<and>
   \<not> bit (reg (reset\<lparr>reg := reg0(1 := 2, 0 := 2)\<rparr>) 1) 0 \<and>
   bit (reg (reset\<lparr>reg := reg0(1 := 2, 0 := 2)\<rparr>) 1) 1"
  by (simp add: runInstruction_def Let_def getNibble1_def getNibble2_def getNibble3_def in_reg_def NREG_def
      pc_advance_def flag_set_def setbit_def reset_def reg0_def fun_eq_iff)

subsection \<open>The run loop and its fuel\<close>

lemma run_loop_halted: "halt s \<Longrightarrow> run_loop fuel ROM s = Some (Inr s)"
  by (cases fuel) simp_all

lemma run_loop_more_fuel:
  "run_loop n ROM s = Some r \<Longrightarrow> run_loop (n + k) ROM s = Some r"
proof (induction n arbitrary: s)
  case 0
  then have "halt s" and "r = Inr s" by (auto split: if_splits)
  then show ?case by (simp add: run_loop_halted)
next
  case (Suc n)
  show ?case
  proof (cases "halt s")
    case True
    with Suc.prems show ?thesis by (simp add: run_loop_halted)
  next
    case False
    show ?thesis
    proof (cases "cycle ROM s")
      case (Inl f)
      with False Suc.prems show ?thesis by auto
    next
      case (Inr s')
      with False Suc.prems have "run_loop n ROM s' = Some r" by simp
      then have "run_loop (n + k) ROM s' = Some r" by (rule Suc.IH)
      with False Inr show ?thesis by simp
    qed
  qed
qed

lemma run_loop_less_fuel:
  assumes "run_loop n ROM s = None" and "m \<le> n"
  shows "run_loop m ROM s = None"
proof (rule ccontr)
  assume "run_loop m ROM s \<noteq> None"
  then obtain r where "run_loop m ROM s = Some r" by auto
  then have "run_loop (m + (n - m)) ROM s = Some r" by (rule run_loop_more_fuel)
  with assms show False by simp
qed


subsection \<open>The program counter\<close>

text \<open>
  C4 (as amended). For every instruction that completes: if it is not a jump and does not
  name register 0 as its destination (f4 of ADD, f3 of CPY, f2 of LDV), the program
  counter afterwards is its value before the instruction plus 2 (mod 65536); a taken jump
  (opcode 0xE with mode f2 = 0 and flag bit f3 clear, mode 1 and flag bit f3 set, or
  mode 2 and above) leaves the literal operand in it; an untaken conditional jump leaves
  the old value plus 2. ADD, CPY and LDV with destination 0 leave in it the value they
  store.
\<close>

theorem program_counter_after_instruction:
  assumes "runInstruction instruction address s = Inr s'"
    and "opc = getNibble1 instruction" and "f2 = unat (getNibble2 instruction)"
    and "f3 = unat (getNibble3 instruction)" and "f4 = unat (getNibble4 instruction)"
  shows "(opc \<noteq> 0xE \<and> \<not> (opc = 0x0 \<and> f4 = 0) \<and> \<not> (opc = 0x6 \<and> f3 = 0) \<and> \<not> (opc = 0xA \<and> f2 = 0)
            \<longrightarrow> reg s' 0 = reg s 0 + 2) \<and>
         (opc = 0xE \<and> ((f2 = 0 \<and> \<not> bit (reg s 1) f3) \<or> (f2 = 1 \<and> bit (reg s 1) f3) \<or> 2 \<le> f2)
            \<longrightarrow> reg s' 0 = address) \<and>
         (opc = 0xE \<and> ((f2 = 0 \<and> bit (reg s 1) f3) \<or> (f2 = 1 \<and> \<not> bit (reg s 1) f3))
            \<longrightarrow> reg s' 0 = reg s 0 + 2) \<and>
         (opc = 0x0 \<and> f4 = 0 \<longrightarrow> reg s' 0 = reg (pc_advance s) f2 + reg (pc_advance s) f3) \<and>
         (opc = 0x6 \<and> f3 = 0 \<longrightarrow> reg s' 0 = reg (pc_advance s) f2) \<and>
         (opc = 0xA \<and> f2 = 0 \<longrightarrow> reg s' 0 = address)"
proof -
  consider (add) "opc = 0x0" | (cmp) "opc = 0x5" | (cpy) "opc = 0x6" | (out) "opc = 0x7"
    | (ldv) "opc = 0xA" | (j) "opc = 0xE" | (other) "opc \<notin> {0x0, 0x5, 0x6, 0x7, 0xA, 0xE}"
    by auto
  then show ?thesis
  proof cases
    case add
    with assms show ?thesis
      by (auto simp: runInstruction_ADD reg_set_def pc_advance_def split: if_splits)
  next
    case cmp
    with assms show ?thesis
      by (auto simp: runInstruction_CMP frame_flag_set_cleared pc_advance_def split: if_splits)
  next
    case cpy
    with assms show ?thesis
      by (auto simp: runInstruction_CPY reg_set_def pc_advance_def split: if_splits)
  next
    case out
    with assms show ?thesis
      by (auto simp: runInstruction_OUT pc_advance_def split: if_splits)
  next
    case ldv
    with assms show ?thesis
      by (auto simp: runInstruction_LDV reg_set_def pc_advance_def split: if_splits)
  next
    case j
    with assms show ?thesis
      by (auto simp: runInstruction_J reg_set_def pc_advance_def split: if_splits)
  next
    case other
    with assms show ?thesis
      by (auto simp: runInstruction_default pc_advance_def)
  qed
qed


theorem program_counter_after_instruction_witness:
  "runInstruction 0x0234 0 reset = Inr (reset\<lparr>reg := reg0(0 := 2, 4 := 0)\<rparr>) \<and>
   reg (reset\<lparr>reg := reg0(0 := 2, 4 := 0)\<rparr>) 0 = reg reset 0 + 2 \<and>
   runInstruction 0xE100 0x0006 (reset\<lparr>reg := reg0(0 := 16, 1 := 1)\<rparr>)
     = Inr (reset\<lparr>reg := reg0(0 := 6, 1 := 1)\<rparr>) \<and>
   reg (reset\<lparr>reg := reg0(0 := 6, 1 := 1)\<rparr>) 0 = 0x0006 \<and>
   runInstruction 0xE100 0x0006 (reset\<lparr>reg := reg0(0 := 16, 1 := 4)\<rparr>)
     = Inr (reset\<lparr>reg := reg0(0 := 18, 1 := 4)\<rparr>) \<and>
   reg (reset\<lparr>reg := reg0(0 := 18, 1 := 4)\<rparr>) 0 = reg (reset\<lparr>reg := reg0(0 := 16, 1 := 4)\<rparr>) 0 + 2"
proof -
  have n: "getNibble1 0x0234 = 0x0" "unat (getNibble2 0x0234) = 2" "unat (getNibble3 0x0234) = 3"
      "unat (getNibble4 0x0234) = 4"
      "getNibble1 0xE100 = 0xE" "unat (getNibble2 0xE100) = 1" "unat (getNibble3 0xE100) = 0"
    by (simp_all add: getNibble1_def getNibble2_def getNibble3_def getNibble4_def)
  have r1: "runInstruction 0x0234 0 reset = Inr (reset\<lparr>reg := reg0(0 := 2, 4 := 0)\<rparr>)"
    by (simp add: runInstruction_ADD n NREG_def reg_set_def pc_advance_def reset_def reg0_def)
  have r2: "runInstruction 0xE100 0x0006 (reset\<lparr>reg := reg0(0 := 16, 1 := 1)\<rparr>)
     = Inr (reset\<lparr>reg := reg0(0 := 6, 1 := 1)\<rparr>)"
    by (simp add: runInstruction_J n reg_set_def pc_advance_def reset_def reg0_def fun_eq_iff)
  have r3: "runInstruction 0xE100 0x0006 (reset\<lparr>reg := reg0(0 := 16, 1 := 4)\<rparr>)
     = Inr (reset\<lparr>reg := reg0(0 := 18, 1 := 4)\<rparr>)"
    by (simp add: runInstruction_J n reg_set_def pc_advance_def reset_def reg0_def fun_eq_iff)
  from program_counter_after_instruction [OF r1 refl refl refl refl]
  have p1: "reg (reset\<lparr>reg := reg0(0 := 2, 4 := 0)\<rparr>) 0 = reg reset 0 + 2"
    by (simp add: n)
  from program_counter_after_instruction [OF r2 refl refl refl refl]
  have p2: "reg (reset\<lparr>reg := reg0(0 := 6, 1 := 1)\<rparr>) 0 = 0x0006"
    by (simp add: n)
  from program_counter_after_instruction [OF r3 refl refl refl refl]
  have p3: "reg (reset\<lparr>reg := reg0(0 := 18, 1 := 4)\<rparr>) 0
      = reg (reset\<lparr>reg := reg0(0 := 16, 1 := 4)\<rparr>) 0 + 2"
    by (simp add: n)
  from r1 p1 r2 p2 r3 p3 show ?thesis by blast
qed

text \<open>
  C4 as stated fails for a non-jump instruction that names register 0 as its
  destination: LDV 0, 0x1234 (0xA000, 0x1234) from reset leaves 0x1234 in the program
  counter, not 0 + 2.
\<close>

theorem program_counter_counterexample:
  "getNibble1 0xA000 \<noteq> 0xE \<and>
   runInstruction 0xA000 0x1234 reset = Inr (reset\<lparr>reg := reg0(0 := 0x1234)\<rparr>) \<and>
   reg (reset\<lparr>reg := reg0(0 := 0x1234)\<rparr>) 0 \<noteq> reg reset 0 + 2"
  by (simp add: runInstruction_def Let_def getNibble1_def getNibble2_def in_reg_def NREG_def
      pc_advance_def reg_set_def reset_def reg0_def)


subsection \<open>Who writes the program counter and the flags\<close>

text \<open>
  C7 (as amended). For every instruction that completes, from any state: register 0
  afterwards is its old value plus 2 unless the instruction is a jump or is ADD, CPY or
  LDV with destination selector 0; register 1 is unchanged unless the instruction is CMP
  or is ADD, CPY or LDV with destination selector 1. OUT, HLT and the undefined opcodes
  write neither.
\<close>

theorem only_destinations_write_pc_and_flags:
  assumes "runInstruction instruction address s = Inr s'"
    and "opc = getNibble1 instruction" and "f2 = unat (getNibble2 instruction)"
    and "f3 = unat (getNibble3 instruction)" and "f4 = unat (getNibble4 instruction)"
  shows "(opc \<noteq> 0xE \<and> \<not> (opc = 0x0 \<and> f4 = 0) \<and> \<not> (opc = 0x6 \<and> f3 = 0) \<and> \<not> (opc = 0xA \<and> f2 = 0)
            \<longrightarrow> reg s' 0 = reg s 0 + 2) \<and>
         (opc \<noteq> 0x5 \<and> \<not> (opc = 0x0 \<and> f4 = 1) \<and> \<not> (opc = 0x6 \<and> f3 = 1) \<and> \<not> (opc = 0xA \<and> f2 = 1)
            \<longrightarrow> reg s' 1 = reg s 1)"
proof -
  consider (add) "opc = 0x0" | (cmp) "opc = 0x5" | (cpy) "opc = 0x6" | (out) "opc = 0x7"
    | (ldv) "opc = 0xA" | (j) "opc = 0xE" | (other) "opc \<notin> {0x0, 0x5, 0x6, 0x7, 0xA, 0xE}"
    by auto
  then show ?thesis
  proof cases
    case add
    with assms show ?thesis
      by (auto simp: runInstruction_ADD reg_set_def pc_advance_def split: if_splits)
  next
    case cmp
    with assms show ?thesis
      by (auto simp: runInstruction_CMP frame_flag_set_cleared pc_advance_def split: if_splits)
  next
    case cpy
    with assms show ?thesis
      by (auto simp: runInstruction_CPY reg_set_def pc_advance_def split: if_splits)
  next
    case out
    with assms show ?thesis
      by (auto simp: runInstruction_OUT pc_advance_def split: if_splits)
  next
    case ldv
    with assms show ?thesis
      by (auto simp: runInstruction_LDV reg_set_def pc_advance_def split: if_splits)
  next
    case j
    with assms show ?thesis
      by (auto simp: runInstruction_J reg_set_def pc_advance_def split: if_splits)
  next
    case other
    with assms show ?thesis
      by (auto simp: runInstruction_default pc_advance_def)
  qed
qed


theorem only_destinations_write_pc_and_flags_witness:
  "runInstruction 0x7400 0 (reset\<lparr>reg := reg0(1 := 4, 4 := 13)\<rparr>)
     = Inr (reset\<lparr>reg := reg0(1 := 4, 4 := 13, 0 := 2), out := print_line 13\<rparr>) \<and>
   reg (reset\<lparr>reg := reg0(1 := 4, 4 := 13, 0 := 2), out := print_line 13\<rparr>) 0
     = reg (reset\<lparr>reg := reg0(1 := 4, 4 := 13)\<rparr>) 0 + 2 \<and>
   reg (reset\<lparr>reg := reg0(1 := 4, 4 := 13, 0 := 2), out := print_line 13\<rparr>) 1
     = reg (reset\<lparr>reg := reg0(1 := 4, 4 := 13)\<rparr>) 1"
proof -
  have n: "getNibble1 0x7400 = 0x7" "unat (getNibble2 0x7400) = 4" "unat (getNibble3 0x7400) = 0"
      "unat (getNibble4 0x7400) = 0"
    by (simp_all add: getNibble1_def getNibble2_def getNibble3_def getNibble4_def)
  have r: "runInstruction 0x7400 0 (reset\<lparr>reg := reg0(1 := 4, 4 := 13)\<rparr>)
     = Inr (reset\<lparr>reg := reg0(1 := 4, 4 := 13, 0 := 2), out := print_line 13\<rparr>)"
    by (simp add: runInstruction_OUT n NREG_def pc_advance_def reset_def reg0_def)
  from only_destinations_write_pc_and_flags [OF r refl refl refl refl]
  have "reg (reset\<lparr>reg := reg0(1 := 4, 4 := 13, 0 := 2), out := print_line 13\<rparr>) 0
     = reg (reset\<lparr>reg := reg0(1 := 4, 4 := 13)\<rparr>) 0 + 2 \<and>
   reg (reset\<lparr>reg := reg0(1 := 4, 4 := 13, 0 := 2), out := print_line 13\<rparr>) 1
     = reg (reset\<lparr>reg := reg0(1 := 4, 4 := 13)\<rparr>) 1"
    by (simp add: n)
  with r show ?thesis by blast
qed

text \<open>
  C7 as stated fails: LDV 1, 0x0007 (0xA100, 0x0007) is not a comparison and writes 7
  into the flags register.
\<close>

theorem flags_written_by_LDV_counterexample:
  "getNibble1 0xA100 \<noteq> 0x5 \<and>
   runInstruction 0xA100 0x0007 reset = Inr (reset\<lparr>reg := reg0(0 := 2, 1 := 7)\<rparr>) \<and>
   reg (reset\<lparr>reg := reg0(0 := 2, 1 := 7)\<rparr>) 1 \<noteq> reg reset 1"
  by (simp add: runInstruction_def Let_def getNibble1_def getNibble2_def in_reg_def NREG_def
      pc_advance_def reg_set_def reset_def reg0_def)



subsection \<open>The data store\<close>

lemma RAM_update_commutes:
  "pc_advance (s\<lparr>RAM := m\<rparr>) = (pc_advance s)\<lparr>RAM := m\<rparr>"
  "reg_set (s\<lparr>RAM := m\<rparr>) i v = (reg_set s i v)\<lparr>RAM := m\<rparr>"
  "flag_set (s\<lparr>RAM := m\<rparr>) k b = (flag_set s k b)\<lparr>RAM := m\<rparr>"
  "cleared (s\<lparr>RAM := m\<rparr>) = (cleared s)\<lparr>RAM := m\<rparr>"
  by (simp_all add: pc_advance_def reg_set_def flag_set_def cleared_def)

lemma runInstruction_RAM_update:
  "runInstruction instruction address (s\<lparr>RAM := m\<rparr>)
     = map_sum id (\<lambda>s'. s'\<lparr>RAM := m\<rparr>) (runInstruction instruction address s)"
proof -
  consider (add) "getNibble1 instruction = 0x0" | (cmp) "getNibble1 instruction = 0x5"
    | (cpy) "getNibble1 instruction = 0x6" | (out) "getNibble1 instruction = 0x7"
    | (ldv) "getNibble1 instruction = 0xA" | (j) "getNibble1 instruction = 0xE"
    | (other) "getNibble1 instruction \<notin> {0x0, 0x5, 0x6, 0x7, 0xA, 0xE}"
    by auto
  then show ?thesis
  proof cases
    case add
    then show ?thesis by (simp add: runInstruction_ADD RAM_update_commutes)
  next
    case cmp
    then show ?thesis by (simp add: runInstruction_CMP RAM_update_commutes)
  next
    case cpy
    then show ?thesis by (simp add: runInstruction_CPY RAM_update_commutes)
  next
    case out
    then show ?thesis by (simp add: runInstruction_OUT RAM_update_commutes)
  next
    case ldv
    then show ?thesis by (simp add: runInstruction_LDV RAM_update_commutes)
  next
    case j
    then show ?thesis by (simp add: runInstruction_J RAM_update_commutes)
  next
    case other
    then show ?thesis by (simp add: runInstruction_default RAM_update_commutes)
  qed
qed

lemma runInstruction_RAM_same:
  assumes "runInstruction instruction address s = Inr s'"
  shows "RAM s' = RAM s"
proof -
  have "runInstruction instruction address (s\<lparr>RAM := RAM s\<rparr>)
     = map_sum id (\<lambda>t. t\<lparr>RAM := RAM s\<rparr>) (runInstruction instruction address s)"
    by (rule runInstruction_RAM_update)
  with assms have "Inr s' = (Inr (s'\<lparr>RAM := RAM s\<rparr>) :: fault + machine)" by simp
  then have "s' = s'\<lparr>RAM := RAM s\<rparr>" by simp
  then have "RAM s' = RAM (s'\<lparr>RAM := RAM s\<rparr>)" by simp
  then show ?thesis by simp
qed


text \<open>
  C10. No instruction reads or writes the data store: whenever an instruction completes,
  \<open>RAM\<close> is what it was before; and running the instruction (or a whole fetch and
  execute cycle) on a state whose data store has been replaced by any other contents
  \<open>m\<close> gives the same outcome, with \<open>m\<close> as the data store.
\<close>

theorem data_store_untouched:
  "(\<forall>s'. runInstruction instruction address s = Inr s' \<longrightarrow> RAM s' = RAM s) \<and>
   runInstruction instruction address (s\<lparr>RAM := m\<rparr>)
     = map_sum id (\<lambda>s'. s'\<lparr>RAM := m\<rparr>) (runInstruction instruction address s) \<and>
   cycle ROM (s\<lparr>RAM := m\<rparr>) = map_sum id (\<lambda>s'. s'\<lparr>RAM := m\<rparr>) (cycle ROM s)"
proof -
  have a: "\<forall>s'. runInstruction instruction address s = Inr s' \<longrightarrow> RAM s' = RAM s"
    by (blast intro: runInstruction_RAM_same)
  have c: "cycle ROM (s\<lparr>RAM := m\<rparr>) = map_sum id (\<lambda>s'. s'\<lparr>RAM := m\<rparr>) (cycle ROM s)"
    by (simp add: cycle_def Let_def runInstruction_RAM_update)
  from a runInstruction_RAM_update c show ?thesis by blast
qed

theorem data_store_untouched_witness:
  "runInstruction 0x8400 0x0010 (reset\<lparr>reg := reg0(4 := 7)\<rparr>)
     = Inr (reset\<lparr>reg := reg0(4 := 7, 0 := 2), halt := True\<rparr>) \<and>
   RAM (reset\<lparr>reg := reg0(4 := 7, 0 := 2), halt := True\<rparr>) = RAM (reset\<lparr>reg := reg0(4 := 7)\<rparr>)"
proof -
  have op: "getNibble1 0x8400 \<notin> {0x0, 0x5, 0x6, 0x7, 0xA, 0xE}"
    by (simp add: getNibble1_def)
  have r: "runInstruction 0x8400 0x0010 (reset\<lparr>reg := reg0(4 := 7)\<rparr>)
     = Inr (reset\<lparr>reg := reg0(4 := 7, 0 := 2), halt := True\<rparr>)"
    by (simp add: runInstruction_default [OF op] pc_advance_def reset_def reg0_def)
  from data_store_untouched [of "0x8400" "0x0010" "reset\<lparr>reg := reg0(4 := 7)\<rparr>"] r
  have "RAM (reset\<lparr>reg := reg0(4 := 7, 0 := 2), halt := True\<rparr>) = RAM (reset\<lparr>reg := reg0(4 := 7)\<rparr>)"
    by blast
  with r show ?thesis by blast
qed

subsection \<open>Halting\<close>

text \<open>
  C5. An instruction whose opcode has no case in the \<^verbatim>\<open>switch\<close> (0xF and every other
  opcode outside 0x0, 0x5, 0x6, 0x7, 0xA, 0xE) completes with \<open>halt\<close> set; the only other
  change is the increment of the program counter by 2 that precedes the dispatch of
  every instruction: the flags, registers 2-4, the data store and the output are
  unchanged. Once \<open>halt\<close> is set the run loop returns the state as it is, without a
  fetch, whatever fuel it has. With 0xF000, 0x0000 at address 0 the loop from reset has
  not halted after 0 cycles and has halted after 1 cycle (and so for any larger fuel),
  with nothing written to the output.
\<close>

theorem HLT_halts_after_one_cycle:
  "(getNibble1 instruction \<notin> {0x0, 0x5, 0x6, 0x7, 0xA, 0xE} \<longrightarrow>
      runInstruction instruction address s = Inr ((pc_advance s)\<lparr>halt := True\<rparr>) \<and>
      (\<exists>s'. runInstruction instruction address s = Inr s' \<and> halt s' \<and>
            reg s' 0 = reg s 0 + 2 \<and> (\<forall>r. r \<noteq> 0 \<longrightarrow> reg s' r = reg s r) \<and>
            RAM s' = RAM s \<and> out s' = out s)) \<and>
   (halt s \<longrightarrow> run_loop fuel ROM s = Some (Inr s)) \<and>
   (ROM 0 = 0xF000 \<and> ROM 1 = 0x0000 \<longrightarrow>
      run_loop 0 ROM reset = None \<and>
      (\<forall>n. run_loop (Suc n) ROM reset = Some (Inr (reset\<lparr>reg := reg0(0 := 2), halt := True\<rparr>))) \<and>
      out (reset\<lparr>reg := reg0(0 := 2), halt := True\<rparr>) = [])"
proof -
  have a: "getNibble1 instruction \<notin> {0x0, 0x5, 0x6, 0x7, 0xA, 0xE} \<longrightarrow>
      runInstruction instruction address s = Inr ((pc_advance s)\<lparr>halt := True\<rparr>) \<and>
      (\<exists>s'. runInstruction instruction address s = Inr s' \<and> halt s' \<and>
            reg s' 0 = reg s 0 + 2 \<and> (\<forall>r. r \<noteq> 0 \<longrightarrow> reg s' r = reg s r) \<and>
            RAM s' = RAM s \<and> out s' = out s)"
    by (simp add: runInstruction_default pc_advance_def)
  have b: "halt s \<longrightarrow> run_loop fuel ROM s = Some (Inr s)"
    by (simp add: run_loop_halted)
  have c: "ROM 0 = 0xF000 \<and> ROM 1 = 0x0000 \<longrightarrow>
      run_loop 0 ROM reset = None \<and>
      (\<forall>n. run_loop (Suc n) ROM reset = Some (Inr (reset\<lparr>reg := reg0(0 := 2), halt := True\<rparr>))) \<and>
      out (reset\<lparr>reg := reg0(0 := 2), halt := True\<rparr>) = []"
  proof
    assume rom: "ROM 0 = 0xF000 \<and> ROM 1 = 0x0000"
    have op: "getNibble1 0xF000 \<notin> {0x0, 0x5, 0x6, 0x7, 0xA, 0xE}"
      by (simp add: getNibble1_def)
    have cyc: "cycle ROM reset = Inr (reset\<lparr>reg := reg0(0 := 2), halt := True\<rparr>)"
      using rom by (simp add: cycle_def ROM_SIZE_def runInstruction_default [OF op] pc_advance_def reset_def reg0_def)
    have "run_loop 0 ROM reset = None" by (simp add: reset_def)
    moreover have "\<forall>n. run_loop (Suc n) ROM reset = Some (Inr (reset\<lparr>reg := reg0(0 := 2), halt := True\<rparr>))"
      using cyc by (simp add: run_loop_halted) (simp add: reset_def)
    moreover have "out (reset\<lparr>reg := reg0(0 := 2), halt := True\<rparr>) = []" by (simp add: reset_def)
    ultimately show "run_loop 0 ROM reset = None \<and>
      (\<forall>n. run_loop (Suc n) ROM reset = Some (Inr (reset\<lparr>reg := reg0(0 := 2), halt := True\<rparr>))) \<and>
      out (reset\<lparr>reg := reg0(0 := 2), halt := True\<rparr>) = []" by blast
  qed
  from a b c show ?thesis by blast
qed


theorem HLT_halts_after_one_cycle_witness:
  "getNibble1 0xF000 \<notin> {0x0, 0x5, 0x6, 0x7, 0xA, 0xE} \<and>
   runInstruction 0xF000 0x0000 reset = Inr (reset\<lparr>reg := reg0(0 := 2), halt := True\<rparr>) \<and>
   halt (reset\<lparr>halt := True\<rparr>) \<and>
   run_loop 0 main_ROM (reset\<lparr>halt := True\<rparr>) = Some (Inr (reset\<lparr>halt := True\<rparr>)) \<and>
   (ROM_fill(0 := 0xF000, 1 := 0x0000)) 0 = 0xF000 \<and> (ROM_fill(0 := 0xF000, 1 := 0x0000)) 1 = 0x0000 \<and>
   run_loop 0 (ROM_fill(0 := 0xF000, 1 := 0x0000)) reset = None \<and>
   run_loop 1 (ROM_fill(0 := 0xF000, 1 := 0x0000)) reset
      = Some (Inr (reset\<lparr>reg := reg0(0 := 2), halt := True\<rparr>))"
proof -
  have op: "getNibble1 0xF000 \<notin> {0x0, 0x5, 0x6, 0x7, 0xA, 0xE}"
    by (simp add: getNibble1_def)
  have rom: "(ROM_fill(0 := 0xF000, 1 := 0x0000)) 0 = 0xF000 \<and> (ROM_fill(0 := 0xF000, 1 := 0x0000)) 1 = 0x0000"
    by simp
  have h: "halt (reset\<lparr>halt := True\<rparr>)" by simp
  note t1 = HLT_halts_after_one_cycle [of "0xF000" "0x0000" reset 0 "ROM_fill(0 := 0xF000, 1 := 0x0000)"]
  note t2 = HLT_halts_after_one_cycle [of "0xF000" "0x0000" "reset\<lparr>halt := True\<rparr>" 0 main_ROM]
  from t1 op have "runInstruction 0xF000 0x0000 reset = Inr ((pc_advance reset)\<lparr>halt := True\<rparr>)"
    by blast
  then have r1: "runInstruction 0xF000 0x0000 reset = Inr (reset\<lparr>reg := reg0(0 := 2), halt := True\<rparr>)"
    by (simp add: pc_advance_def reset_def reg0_def)
  from t2 h have r2: "run_loop 0 main_ROM (reset\<lparr>halt := True\<rparr>) = Some (Inr (reset\<lparr>halt := True\<rparr>))"
    by blast
  from t1 rom have r3: "run_loop 0 (ROM_fill(0 := 0xF000, 1 := 0x0000)) reset = None"
    and r4: "run_loop (Suc 0) (ROM_fill(0 := 0xF000, 1 := 0x0000)) reset
      = Some (Inr (reset\<lparr>reg := reg0(0 := 2), halt := True\<rparr>))"
    by blast+
  from op r1 h r2 rom r3 r4 show ?thesis by simp
qed


subsection \<open>The bounds of the program store\<close>

text \<open>
  C6 fails on the code. The array \<^verbatim>\<open>ROM\<close> is declared with 0xFFFF = 65535 cells
  (the comment beside it takes 0xFFFF for 65536), so address 65535 is outside it, and the
  index \<^verbatim>\<open>reg[0]+1\<close> does not wrap. With the jump J 2 0, 0xFFFE at address 0 the first
  cycle sets the program counter to 0xFFFE and the second cycle fetches the words at
  65534 and 65535: the second fetch is outside the array.
\<close>

theorem ROM_fetch_past_the_array:
  "ROM_SIZE = 65535 \<and>
   cycle (ROM_fill(0 := 0xE200, 1 := 0xFFFE)) reset = Inr (reset\<lparr>reg := reg0(0 := 0xFFFE)\<rparr>) \<and>
   unat (reg (reset\<lparr>reg := reg0(0 := 0xFFFE)\<rparr>) 0) + 1 = ROM_SIZE \<and>
   cycle (ROM_fill(0 := 0xE200, 1 := 0xFFFE)) (reset\<lparr>reg := reg0(0 := 0xFFFE)\<rparr>) = Inl RomOutOfRange \<and>
   run_loop 2 (ROM_fill(0 := 0xE200, 1 := 0xFFFE)) reset = Some (Inl RomOutOfRange)"
proof -
  let ?ROM = "ROM_fill(0 := 0xE200, 1 := 0xFFFE)"
  have op: "getNibble1 0xE200 = 0xE" "unat (getNibble2 0xE200) = 2"
    by (simp_all add: getNibble1_def getNibble2_def)
  have c1: "cycle ?ROM reset = Inr (reset\<lparr>reg := reg0(0 := 0xFFFE)\<rparr>)"
    by (simp add: cycle_def ROM_SIZE_def runInstruction_J [OF op(1)] op(2) reg_set_def pc_advance_def reset_def reg0_def)
  have c2: "cycle ?ROM (reset\<lparr>reg := reg0(0 := 0xFFFE)\<rparr>) = Inl RomOutOfRange"
    by (simp add: cycle_def ROM_SIZE_def)
  have nh: "\<not> halt reset" "\<not> halt (reset\<lparr>reg := reg0(0 := 0xFFFE)\<rparr>)"
    by (simp_all add: reset_def)
  have "run_loop (Suc (Suc 0)) ?ROM reset = Some (Inl RomOutOfRange)"
    using c1 c2 nh by simp
  then have r: "run_loop 2 ?ROM reset = Some (Inl RomOutOfRange)"
    by (simp add: numeral_2_eq_2)
  have sz: "ROM_SIZE = 65535" "unat (reg (reset\<lparr>reg := reg0(0 := 0xFFFE)\<rparr>) 0) + 1 = ROM_SIZE"
    by (simp_all add: ROM_SIZE_def)
  from sz c1 c2 r show ?thesis by blast
qed


subsection \<open>The demo program\<close>

lemma decimal_digit: "n < 10 \<Longrightarrow> decimal n = [digit n]"
  by (simp add: decimal.simps)

lemma decimal_more: "\<not> n < 10 \<Longrightarrow> decimal n = decimal (n div 10) @ [digit (n mod 10)]"
  by (subst decimal.simps) simp

lemma run_loop_numeral_plus:
  "run_loop (numeral n + k) ROM s =
     (if halt s then Some (Inr s)
      else case cycle ROM s of
             Inl f \<Rightarrow> Some (Inl f)
           | Inr s' \<Rightarrow> run_loop (pred_numeral n + k) ROM s')"
  by (simp add: numeral_eq_Suc)

lemmas exec_simps = cycle_def runInstruction_def ROM_SIZE_def NREG_def in_reg_def pc_advance_def
  flag_set_def reg_set_def getNibble1_def getNibble2_def getNibble3_def getNibble4_def getbit_def setbit_def
  main_ROM_def ROM_fill_def reset_def reg0_def Let_def

lemma main_first_141_cycles:
  "run_loop (141 + k) main_ROM reset =
   run_loop k main_ROM
     \<lparr>reg = reg0(0 := 18, 1 := 4, 2 := 28657, 3 := 46368, 4 := 9489), RAM = RAM0, halt = False,
      out = concat (map print_line [1, 2, 3, 5, 8, 13, 21, 34, 55, 89, 144, 233, 377, 610, 987,
               1597, 2584, 4181, 6765, 10946, 17711, 28657, 46368])\<rparr>"
  apply (simp add: run_loop_numeral_plus exec_simps print_line_def decimal_digit decimal_more digit_def)
  apply (rule arg_cong [where f = "run_loop k _"])
  apply (simp add: fun_eq_iff)
  done


lemma spec_fibonacci_numeral: "spec_fibonacci (numeral k) a b = a # spec_fibonacci (pred_numeral k) b (a + b)"
  by (simp add: numeral_eq_Suc)

lemma spec_fibonacci_23:
  "spec_fibonacci 23 1 2 = [1, 2, 3, 5, 8, 13, 21, 34, 55, 89, 144, 233, 377, 610, 987,
               1597, 2584, 4181, 6765, 10946, 17711, 28657, 46368]"
  by (simp add: spec_fibonacci_numeral)

lemma main_not_halted_at_141: "main 141 = None"
proof -
  have "main 141 = run_loop (141 + 0) main_ROM reset" by (simp add: main_def)
  also have "\<dots> = None" by (subst main_first_141_cycles) simp
  finally show ?thesis .
qed

lemma main_halted_at_142:
  "main 142 = Some (Inr
     \<lparr>reg = reg0(0 := 20, 1 := 4, 2 := 28657, 3 := 46368, 4 := 9489), RAM = RAM0, halt = True,
      out = concat (map print_line [1, 2, 3, 5, 8, 13, 21, 34, 55, 89, 144, 233, 377, 610, 987,
               1597, 2584, 4181, 6765, 10946, 17711, 28657, 46368])\<rparr>)"
proof -
  have "main 142 = run_loop (141 + 1) main_ROM reset" by (simp add: main_def)
  also have "\<dots> = Some (Inr
     \<lparr>reg = reg0(0 := 20, 1 := 4, 2 := 28657, 3 := 46368, 4 := 9489), RAM = RAM0, halt = True,
      out = concat (map print_line [1, 2, 3, 5, 8, 13, 21, 34, 55, 89, 144, 233, 377, 610, 987,
               1597, 2584, 4181, 6765, 10946, 17711, 28657, 46368])\<rparr>)"
    by (subst main_first_141_cycles)
       (simp add: cycle_def ROM_SIZE_def main_ROM_def ROM_fill_def runInstruction_def Let_def
          getNibble1_def pc_advance_def reg0_def fun_eq_iff)
  finally show ?thesis .
qed

text \<open>
  C2 (as amended). With the program store that \<^verbatim>\<open>main\<close> sets up (the 18 words at
  address 0, the sentinel 0xFFFF everywhere else) the run from reset halts after exactly
  142 cycles: with less fuel the loop is still running, with 142 cycles or more it
  returns the same final state, and no access leaves an array. The output is the 23
  lines 1, 2, 3, 5, 8, 13, 21, ..., 28657, 46368, each the unsigned decimal numeral of a
  term of the Fibonacci sequence that starts 1, 2 (the number 1 is printed once). The
  next sum, 28657 + 46368, wraps to 9489, which is below 46368: CMP at address 14 sets
  the less-than flag (flags = 4), the jump at address 16 is not taken, and the sentinel
  at address 18 halts the machine with the program counter at 20.
\<close>

theorem fibonacci_program_trace:
  "(\<forall>fuel. 142 \<le> fuel \<longrightarrow>
      main fuel = Some (Inr
        \<lparr>reg = reg0(0 := 20, 1 := 4, 2 := 28657, 3 := 46368, 4 := 9489), RAM = RAM0, halt = True,
         out = ''1\<newline>2\<newline>3\<newline>5\<newline>8\<newline>13\<newline>21\<newline>34\<newline>55\<newline>89\<newline>144\<newline>233\<newline>377\<newline>610\<newline>987\<newline>1597\<newline>2584\<newline>4181\<newline>6765\<newline>10946\<newline>17711\<newline>28657\<newline>46368\<newline>''\<rparr>)) \<and>
   (\<forall>fuel. fuel < 142 \<longrightarrow> main fuel = None) \<and>
   ''1\<newline>2\<newline>3\<newline>5\<newline>8\<newline>13\<newline>21\<newline>34\<newline>55\<newline>89\<newline>144\<newline>233\<newline>377\<newline>610\<newline>987\<newline>1597\<newline>2584\<newline>4181\<newline>6765\<newline>10946\<newline>17711\<newline>28657\<newline>46368\<newline>''
      = concat (map (print_line \<circ> word_of_nat) (spec_fibonacci 23 1 2)) \<and>
   (28657 :: word16) + 46368 = 9489 \<and> (9489 :: word16) < 46368"
proof -
  let ?nums = "[1, 2, 3, 5, 8, 13, 21, 34, 55, 89, 144, 233, 377, 610, 987,
               1597, 2584, 4181, 6765, 10946, 17711, 28657, 46368] :: word16 list"
  let ?final = "\<lparr>reg = reg0(0 := 20, 1 := 4, 2 := 28657, 3 := 46368, 4 := 9489), RAM = RAM0,
                 halt = True, out = concat (map print_line ?nums)\<rparr>"
  have lit: "concat (map print_line ?nums)
     = ''1\<newline>2\<newline>3\<newline>5\<newline>8\<newline>13\<newline>21\<newline>34\<newline>55\<newline>89\<newline>144\<newline>233\<newline>377\<newline>610\<newline>987\<newline>1597\<newline>2584\<newline>4181\<newline>6765\<newline>10946\<newline>17711\<newline>28657\<newline>46368\<newline>''"
    by (simp add: print_line_def decimal_digit decimal_more digit_def endl_def)
  have nums: "map word_of_nat (spec_fibonacci 23 1 2) = ?nums"
    unfolding spec_fibonacci_23 by simp
  have seq: "concat (map print_line ?nums) = concat (map (print_line \<circ> word_of_nat) (spec_fibonacci 23 1 2))"
    unfolding nums [symmetric] by simp
  have halted: "\<forall>fuel. 142 \<le> fuel \<longrightarrow> main fuel = Some (Inr ?final)"
  proof (intro allI impI)
    fix fuel :: nat
    assume "142 \<le> fuel"
    then have "fuel = 142 + (fuel - 142)" by simp
    moreover have "run_loop (142 + (fuel - 142)) main_ROM reset = Some (Inr ?final)"
      using main_halted_at_142 unfolding main_def by (rule run_loop_more_fuel)
    ultimately show "main fuel = Some (Inr ?final)" by (simp add: main_def)
  qed
  have running: "\<forall>fuel. fuel < 142 \<longrightarrow> main fuel = None"
  proof (intro allI impI)
    fix fuel :: nat
    assume "fuel < 142"
    then have "fuel \<le> 141" by simp
    with main_not_halted_at_141 show "main fuel = None"
      unfolding main_def by (rule run_loop_less_fuel)
  qed
  have wrap: "(28657 :: word16) + 46368 = 9489 \<and> (9489 :: word16) < 46368"
    by simp
  from halted running wrap show ?thesis
    unfolding lit [symmetric] seq [symmetric] by blast
qed


theorem fibonacci_program_trace_witness:
  "(142::nat) \<le> 142 \<and> (141::nat) < 142 \<and> main 141 = None \<and>
   main 142 = Some (Inr
        \<lparr>reg = reg0(0 := 20, 1 := 4, 2 := 28657, 3 := 46368, 4 := 9489), RAM = RAM0, halt = True,
         out = ''1\<newline>2\<newline>3\<newline>5\<newline>8\<newline>13\<newline>21\<newline>34\<newline>55\<newline>89\<newline>144\<newline>233\<newline>377\<newline>610\<newline>987\<newline>1597\<newline>2584\<newline>4181\<newline>6765\<newline>10946\<newline>17711\<newline>28657\<newline>46368\<newline>''\<rparr>)"
proof -
  have a: "(142::nat) \<le> 142" and b: "(141::nat) < 142" by simp_all
  from fibonacci_program_trace a b show ?thesis by blast
qed


text \<open>
  C2 as stated fails at the start of the trace: the first two lines of the output are
  1 and 2, not 1 and 1.
\<close>

theorem fibonacci_output_counterexample:
  "map_option (map_sum id (take 4 \<circ> out)) (main 142) = Some (Inr (print_line 1 @ print_line 2)) \<and>
   print_line 1 @ print_line 2 \<noteq> print_line 1 @ print_line 1"
  by (simp add: main_halted_at_142 print_line_def decimal_digit digit_def)


end
